theory Spec2Isabelle
  imports Main "HOL-Library.Word" "HOL-Library.Sublist"
begin

section \<open>Data model\<close>

text \<open>
  Task texts are JavaScript strings: sequences of 16-bit code units. The texts of
  messages (the literals of the program and the message of an error object) are kept
  apart as plain strings: the program never trims or compares them.
\<close>

type_synonym jschar = "16 word"
type_synonym jsstring = "jschar list"

text \<open>
  A timestamp is the reading of \<^verbatim>\<open>new Date().toISOString()\<close>, kept abstract.
\<close>

type_synonym timestamp = nat

text \<open>
  A row of the remote table \<^verbatim>\<open>todos\<close>. The single-user table has no
  \<^verbatim>\<open>updated_at\<close> and no \<^verbatim>\<open>user_id\<close> column: the fields are then
  \<open>None\<close>. The fields \<^verbatim>\<open>id\<close> and \<^verbatim>\<open>text\<close> are written \<open>todo_id\<close>
  and \<open>todo_text\<close>.
\<close>

record todo =
  todo_id :: nat
  todo_text :: jsstring
  completed :: bool
  created_at :: timestamp
  updated_at :: "timestamp option"
  user_id :: "string option"

subsection \<open>The remote collaborator\<close>

text \<open>
  The object literal handed to \<^verbatim>\<open>insert\<close> or \<^verbatim>\<open>update\<close>: a field that the
  literal does not mention is \<open>None\<close>.
\<close>

record fields =
  f_text :: "jsstring option"
  f_completed :: "bool option"
  f_user_id :: "string option"
  f_created_at :: "timestamp option"
  f_updated_at :: "timestamp option"

text \<open>The \<^verbatim>\<open>.eq(column, value)\<close> conditions the program chains onto a query.\<close>

datatype cond = EqId nat | EqUserId string | EqCompleted bool

text \<open>
  The queries the program builds on \<^verbatim>\<open>supabase.from('todos')\<close>.
  \<open>Select\<close> is \<^verbatim>\<open>.select('*')\<close> with its conditions, ordered by
  \<^verbatim>\<open>created_at\<close> descending; \<open>Insert\<close> is \<^verbatim>\<open>.insert([fields]).select()\<close>.
\<close>

datatype request =
  Select "cond list"
| Insert fields
| Update fields "cond list"
| Delete "cond list"

datatype js_error = JsError (message: string)

text \<open>
  What an awaited query resolves to: the pair \<^verbatim>\<open>{ data, error }\<close>, each of them
  possibly \<^verbatim>\<open>null\<close>.
\<close>

record response =
  resp_data :: "todo list option"
  resp_error :: "js_error option"

text \<open>
  The surroundings of one run of a handler: how the remote collaborator answers a query,
  the successive readings of the clock (\<open>Date_now k\<close> is the reading number \<open>k\<close> of the
  run), and the \<^verbatim>\<open>user.id\<close> of the session (the session gate renders the
  authenticated component only with a user).
\<close>

record env =
  remote :: "request \<Rightarrow> response"
  Date_now :: "nat \<Rightarrow> timestamp"
  user :: string

subsection \<open>The component's state\<close>

text \<open>
  The \<^verbatim>\<open>useState\<close> cells of the component (\<^verbatim>\<open>filter\<close> is written
  \<open>filter_mode\<close>; the single-user component has no \<open>editingTodo\<close> and \<open>editText\<close> and
  never touches them), followed by the two traces of its effects: the queries sent to the
  remote collaborator and the lines written by \<^verbatim>\<open>console.error\<close>, oldest first.
  A handler runs to completion on the state it was started in.
\<close>

record state =
  todos :: "todo list"
  newTodo :: jsstring
  filter_mode :: string
  loading :: bool
  error :: "string option"
  editingTodo :: "nat option"
  editText :: jsstring
  issued :: "request list"
  console :: "(string \<times> string) list"

section \<open>String.prototype.trim\<close>

text \<open>
  The code units that ECMAScript counts as white space or as a line terminator.
\<close>

definition isWhiteSpace :: "jschar \<Rightarrow> bool" where
  "isWhiteSpace c \<longleftrightarrow>
     c = 0x0009 \<or> c = 0x000A \<or> c = 0x000B \<or> c = 0x000C \<or> c = 0x000D \<or> c = 0x0020 \<or>
     c = 0x00A0 \<or> c = 0x1680 \<or> (0x2000 \<le> c \<and> c \<le> 0x200A) \<or> c = 0x2028 \<or>
     c = 0x2029 \<or> c = 0x202F \<or> c = 0x205F \<or> c = 0x3000 \<or> c = 0xFEFF"

definition trim :: "jsstring \<Rightarrow> jsstring" where
  "trim s = rev (dropWhile isWhiteSpace (rev (dropWhile isWhiteSpace s)))"

section \<open>The authenticated component (src/components/TodoList.js)\<close>

text \<open>
  The body of a \<^verbatim>\<open>try\<close> block either runs to its end (\<open>Inr\<close>, with the state
  reached) or throws (\<open>Inl\<close>, with the error thrown and the state reached by then); the
  handler then runs its \<^verbatim>\<open>catch\<close> block on a thrown error.
\<close>

type_synonym outcome = "(js_error \<times> state) + state"

definition auth_addTodo_try :: "env \<Rightarrow> state \<Rightarrow> outcome" where
  "auth_addTodo_try env s =
     (let req = Insert \<lparr>f_text = Some (trim (newTodo s)), f_completed = Some False,
                       f_user_id = Some (user env), f_created_at = Some (Date_now env 0),
                       f_updated_at = Some (Date_now env 1)\<rparr>;
          resp = remote env req;
          s1 = s\<lparr>issued := issued s @ [req]\<rparr>
      in case resp_error resp of
           Some e \<Rightarrow> Inl (e, s1)
         | None \<Rightarrow>
             (case resp_data resp of
                Some (row # rest) \<Rightarrow> Inr (s1\<lparr>todos := row # todos s, newTodo := []\<rparr>)
              | _ \<Rightarrow> Inr s1))"

definition auth_addTodo :: "env \<Rightarrow> state \<Rightarrow> state" where
  "auth_addTodo env s =
     (let s0 = s\<lparr>error := None\<rparr>
      in if trim (newTodo s) = []
         then s0\<lparr>error := Some ''Todo text cannot be empty''\<rparr>
         else (case auth_addTodo_try env s0 of
                 Inl (e, s1) \<Rightarrow>
                   s1\<lparr>console := console s1 @ [(''Error adding todo:'', message e)],
                      error := Some (message e)\<rparr>
               | Inr s2 \<Rightarrow> s2))"

definition auth_fetchTodos_try :: "env \<Rightarrow> state \<Rightarrow> outcome" where
  "auth_fetchTodos_try env s =
     (let req = Select [EqUserId (user env)];
          resp = remote env req;
          s1 = s\<lparr>issued := issued s @ [req]\<rparr>
      in case resp_error resp of
           Some e \<Rightarrow> Inl (e, s1)
         | None \<Rightarrow> Inr (s1\<lparr>todos := (case resp_data resp of Some rows \<Rightarrow> rows | None \<Rightarrow> [])\<rparr>))"

definition auth_fetchTodos :: "env \<Rightarrow> state \<Rightarrow> state" where
  "auth_fetchTodos env s =
     (let s3 = (case auth_fetchTodos_try env s of
                  Inl (e, s1) \<Rightarrow>
                    s1\<lparr>console := console s1 @ [(''Error fetching todos:'', message e)],
                       error := Some (message e)\<rparr>
                | Inr s2 \<Rightarrow> s2)
      in s3\<lparr>loading := False\<rparr>)"

definition startEditing :: "todo \<Rightarrow> state \<Rightarrow> state" where
  "startEditing todo s = s\<lparr>editingTodo := Some (todo_id todo), editText := todo_text todo\<rparr>"

definition cancelEdit :: "state \<Rightarrow> state" where
  "cancelEdit s = s\<lparr>editingTodo := None, editText := []\<rparr>"

text \<open>
  The callback of \<^verbatim>\<open>todos.map\<close> in \<^verbatim>\<open>saveEdit\<close> reads the clock once for
  every task it rewrites: \<open>k\<close> counts the readings made so far.
\<close>

fun saveEdit_map :: "(nat \<Rightarrow> timestamp) \<Rightarrow> nat \<Rightarrow> nat \<Rightarrow> jsstring \<Rightarrow> todo list \<Rightarrow> todo list" where
  "saveEdit_map now k i txt [] = []"
| "saveEdit_map now k i txt (todo # rest) =
     (if todo_id todo = i
      then todo\<lparr>todo_text := trim txt, updated_at := Some (now k)\<rparr>
             # saveEdit_map now (Suc k) i txt rest
      else todo # saveEdit_map now k i txt rest)"

definition saveEdit_try :: "env \<Rightarrow> nat \<Rightarrow> state \<Rightarrow> outcome" where
  "saveEdit_try env i s =
     (let req = Update \<lparr>f_text = Some (trim (editText s)), f_completed = None,
                       f_user_id = None, f_created_at = None,
                       f_updated_at = Some (Date_now env 0)\<rparr>
                  [EqId i, EqUserId (user env)];
          resp = remote env req;
          s1 = s\<lparr>issued := issued s @ [req]\<rparr>
      in case resp_error resp of
           Some e \<Rightarrow> Inl (e, s1)
         | None \<Rightarrow>
             Inr (s1\<lparr>todos := saveEdit_map (Date_now env) 1 i (editText s) (todos s),
                      editingTodo := None\<rparr>))"

definition saveEdit :: "env \<Rightarrow> nat \<Rightarrow> state \<Rightarrow> state" where
  "saveEdit env i s =
     (case saveEdit_try env i s of
        Inl (e, s1) \<Rightarrow>
          s1\<lparr>console := console s1 @ [(''Error updating todo:'', message e)],
             error := Some (message e)\<rparr>
      | Inr s2 \<Rightarrow> s2)"

text \<open>
  Reading \<^verbatim>\<open>todo.completed\<close> when \<^verbatim>\<open>todos.find\<close> returned
  \<^verbatim>\<open>undefined\<close> throws a \<^verbatim>\<open>TypeError\<close> (the wording of its message is the
  engine's).
\<close>

definition TypeError_completed :: js_error where
  "TypeError_completed = JsError ''Cannot read properties of undefined (reading completed)''"

fun auth_toggle_map :: "(nat \<Rightarrow> timestamp) \<Rightarrow> nat \<Rightarrow> nat \<Rightarrow> todo list \<Rightarrow> todo list" where
  "auth_toggle_map now k i [] = []"
| "auth_toggle_map now k i (todo # rest) =
     (if todo_id todo = i
      then todo\<lparr>completed := \<not> completed todo, updated_at := Some (now k)\<rparr>
             # auth_toggle_map now (Suc k) i rest
      else todo # auth_toggle_map now k i rest)"

definition auth_toggleTodo_try :: "env \<Rightarrow> nat \<Rightarrow> state \<Rightarrow> outcome" where
  "auth_toggleTodo_try env i s =
     (case find (\<lambda>t. todo_id t = i) (todos s) of
        None \<Rightarrow> Inl (TypeError_completed, s)
      | Some todo \<Rightarrow>
          (let req = Update \<lparr>f_text = None, f_completed = Some (\<not> completed todo),
                            f_user_id = None, f_created_at = None,
                            f_updated_at = Some (Date_now env 0)\<rparr>
                       [EqId i, EqUserId (user env)];
               resp = remote env req;
               s1 = s\<lparr>issued := issued s @ [req]\<rparr>
           in case resp_error resp of
                Some e \<Rightarrow> Inl (e, s1)
              | None \<Rightarrow> Inr (s1\<lparr>todos := auth_toggle_map (Date_now env) 1 i (todos s)\<rparr>)))"

definition auth_toggleTodo :: "env \<Rightarrow> nat \<Rightarrow> state \<Rightarrow> state" where
  "auth_toggleTodo env i s =
     (case auth_toggleTodo_try env i s of
        Inl (e, s1) \<Rightarrow>
          s1\<lparr>console := console s1 @ [(''Error updating todo:'', message e)],
             error := Some (message e)\<rparr>
      | Inr s2 \<Rightarrow> s2)"

definition auth_deleteTodo_try :: "env \<Rightarrow> nat \<Rightarrow> state \<Rightarrow> outcome" where
  "auth_deleteTodo_try env i s =
     (let req = Delete [EqId i, EqUserId (user env)];
          resp = remote env req;
          s1 = s\<lparr>issued := issued s @ [req]\<rparr>
      in case resp_error resp of
           Some e \<Rightarrow> Inl (e, s1)
         | None \<Rightarrow> Inr (s1\<lparr>todos := filter (\<lambda>todo. todo_id todo \<noteq> i) (todos s)\<rparr>))"

definition auth_deleteTodo :: "env \<Rightarrow> nat \<Rightarrow> state \<Rightarrow> state" where
  "auth_deleteTodo env i s =
     (case auth_deleteTodo_try env i s of
        Inl (e, s1) \<Rightarrow>
          s1\<lparr>console := console s1 @ [(''Error deleting todo:'', message e)],
             error := Some (message e)\<rparr>
      | Inr s2 \<Rightarrow> s2)"

definition auth_clearCompleted_try :: "env \<Rightarrow> state \<Rightarrow> outcome" where
  "auth_clearCompleted_try env s =
     (let req = Delete [EqCompleted True, EqUserId (user env)];
          resp = remote env req;
          s1 = s\<lparr>issued := issued s @ [req]\<rparr>
      in case resp_error resp of
           Some e \<Rightarrow> Inl (e, s1)
         | None \<Rightarrow> Inr (s1\<lparr>todos := filter (\<lambda>todo. \<not> completed todo) (todos s)\<rparr>))"

definition auth_clearCompleted :: "env \<Rightarrow> state \<Rightarrow> state" where
  "auth_clearCompleted env s =
     (case auth_clearCompleted_try env s of
        Inl (e, s1) \<Rightarrow>
          s1\<lparr>console := console s1 @ [(''Error clearing completed todos:'', message e)],
             error := Some (message e)\<rparr>
      | Inr s2 \<Rightarrow> s2)"

text \<open>
  The filter control and the list on display; the three components have the same text
  here. \<^verbatim>\<open>setFilter\<close> is the setter of the \<^verbatim>\<open>filter\<close> cell, and
  \<^verbatim>\<open>filteredTodos\<close> is computed from the state at every rendering.
\<close>

definition setFilter :: "string \<Rightarrow> state \<Rightarrow> state" where
  "setFilter filterType s = s\<lparr>filter_mode := filterType\<rparr>"

definition filteredTodos :: "state \<Rightarrow> todo list" where
  "filteredTodos s =
     filter (\<lambda>todo. if filter_mode s = ''active'' then \<not> completed todo
                    else if filter_mode s = ''completed'' then completed todo
                    else True) (todos s)"

section \<open>The single-user component (src/app/page.js and unnamed/part_000)\<close>

definition simple_addTodo_try :: "env \<Rightarrow> state \<Rightarrow> outcome" where
  "simple_addTodo_try env s =
     (let req = Insert \<lparr>f_text = Some (trim (newTodo s)), f_completed = Some False,
                       f_user_id = None, f_created_at = Some (Date_now env 0),
                       f_updated_at = None\<rparr>;
          resp = remote env req;
          s1 = s\<lparr>issued := issued s @ [req]\<rparr>
      in case resp_error resp of
           Some e \<Rightarrow> Inl (e, s1\<lparr>console := console s1 @ [(''Supabase error:'', message e)]\<rparr>)
         | None \<Rightarrow>
             (case resp_data resp of
                Some (row # rest) \<Rightarrow> Inr (s1\<lparr>todos := row # todos s, newTodo := []\<rparr>)
              | _ \<Rightarrow> Inl (JsError ''No data returned from insert'', s1)))"

definition simple_addTodo :: "env \<Rightarrow> state \<Rightarrow> state" where
  "simple_addTodo env s =
     (let s0 = s\<lparr>error := None\<rparr>
      in if trim (newTodo s) = []
         then s0\<lparr>error := Some ''Todo text cannot be empty''\<rparr>
         else (case simple_addTodo_try env s0 of
                 Inl (e, s1) \<Rightarrow>
                   s1\<lparr>console := console s1 @ [(''Error adding todo:'', message e)],
                      error := Some (message e)\<rparr>
               | Inr s2 \<Rightarrow> s2))"

definition simple_fetchTodos_try :: "env \<Rightarrow> state \<Rightarrow> outcome" where
  "simple_fetchTodos_try env s =
     (let req = Select [];
          resp = remote env req;
          s1 = s\<lparr>issued := issued s @ [req]\<rparr>
      in case resp_error resp of
           Some e \<Rightarrow> Inl (e, s1)
         | None \<Rightarrow> Inr (s1\<lparr>todos := (case resp_data resp of Some rows \<Rightarrow> rows | None \<Rightarrow> [])\<rparr>))"

definition simple_fetchTodos :: "env \<Rightarrow> state \<Rightarrow> state" where
  "simple_fetchTodos env s =
     (let s3 = (case simple_fetchTodos_try env s of
                  Inl (e, s1) \<Rightarrow>
                    s1\<lparr>console := console s1 @ [(''Error fetching todos:'', message e)],
                       error := Some (message e)\<rparr>
                | Inr s2 \<Rightarrow> s2)
      in s3\<lparr>loading := False\<rparr>)"

text \<open>
  The \<^verbatim>\<open>try\<close> blocks of \<^verbatim>\<open>toggleTodo\<close>, \<^verbatim>\<open>deleteTodo\<close> and
  \<^verbatim>\<open>clearCompleted\<close> are the same in src/app/page.js and in unnamed/part_000; the
  \<^verbatim>\<open>catch\<close> blocks differ: page.js logs and sets the error state, part_000 only
  logs.
\<close>

definition simple_toggleTodo_try :: "env \<Rightarrow> nat \<Rightarrow> state \<Rightarrow> outcome" where
  "simple_toggleTodo_try env i s =
     (case find (\<lambda>t. todo_id t = i) (todos s) of
        None \<Rightarrow> Inl (TypeError_completed, s)
      | Some todo \<Rightarrow>
          (let req = Update \<lparr>f_text = None, f_completed = Some (\<not> completed todo),
                            f_user_id = None, f_created_at = None, f_updated_at = None\<rparr>
                       [EqId i];
               resp = remote env req;
               s1 = s\<lparr>issued := issued s @ [req]\<rparr>
           in case resp_error resp of
                Some e \<Rightarrow> Inl (e, s1)
              | None \<Rightarrow>
                  Inr (s1\<lparr>todos := map (\<lambda>todo. if todo_id todo = i
                                               then todo\<lparr>completed := \<not> completed todo\<rparr>
                                               else todo) (todos s)\<rparr>)))"

definition simple_deleteTodo_try :: "env \<Rightarrow> nat \<Rightarrow> state \<Rightarrow> outcome" where
  "simple_deleteTodo_try env i s =
     (let req = Delete [EqId i];
          resp = remote env req;
          s1 = s\<lparr>issued := issued s @ [req]\<rparr>
      in case resp_error resp of
           Some e \<Rightarrow> Inl (e, s1)
         | None \<Rightarrow> Inr (s1\<lparr>todos := filter (\<lambda>todo. todo_id todo \<noteq> i) (todos s)\<rparr>))"

definition simple_clearCompleted_try :: "env \<Rightarrow> state \<Rightarrow> outcome" where
  "simple_clearCompleted_try env s =
     (let req = Delete [EqCompleted True];
          resp = remote env req;
          s1 = s\<lparr>issued := issued s @ [req]\<rparr>
      in case resp_error resp of
           Some e \<Rightarrow> Inl (e, s1)
         | None \<Rightarrow> Inr (s1\<lparr>todos := filter (\<lambda>todo. \<not> completed todo) (todos s)\<rparr>))"

subsection \<open>src/app/page.js\<close>

definition page_toggleTodo :: "env \<Rightarrow> nat \<Rightarrow> state \<Rightarrow> state" where
  "page_toggleTodo env i s =
     (case simple_toggleTodo_try env i s of
        Inl (e, s1) \<Rightarrow>
          s1\<lparr>console := console s1 @ [(''Error updating todo:'', message e)],
             error := Some (message e)\<rparr>
      | Inr s2 \<Rightarrow> s2)"

definition page_deleteTodo :: "env \<Rightarrow> nat \<Rightarrow> state \<Rightarrow> state" where
  "page_deleteTodo env i s =
     (case simple_deleteTodo_try env i s of
        Inl (e, s1) \<Rightarrow>
          s1\<lparr>console := console s1 @ [(''Error deleting todo:'', message e)],
             error := Some (message e)\<rparr>
      | Inr s2 \<Rightarrow> s2)"

definition page_clearCompleted :: "env \<Rightarrow> state \<Rightarrow> state" where
  "page_clearCompleted env s =
     (case simple_clearCompleted_try env s of
        Inl (e, s1) \<Rightarrow>
          s1\<lparr>console := console s1 @ [(''Error clearing completed todos:'', message e)],
             error := Some (message e)\<rparr>
      | Inr s2 \<Rightarrow> s2)"

subsection \<open>unnamed/part_000\<close>

definition part_toggleTodo :: "env \<Rightarrow> nat \<Rightarrow> state \<Rightarrow> state" where
  "part_toggleTodo env i s =
     (case simple_toggleTodo_try env i s of
        Inl (e, s1) \<Rightarrow> s1\<lparr>console := console s1 @ [(''Error updating todo:'', message e)]\<rparr>
      | Inr s2 \<Rightarrow> s2)"

definition part_deleteTodo :: "env \<Rightarrow> nat \<Rightarrow> state \<Rightarrow> state" where
  "part_deleteTodo env i s =
     (case simple_deleteTodo_try env i s of
        Inl (e, s1) \<Rightarrow> s1\<lparr>console := console s1 @ [(''Error deleting todo:'', message e)]\<rparr>
      | Inr s2 \<Rightarrow> s2)"

definition part_clearCompleted :: "env \<Rightarrow> state \<Rightarrow> state" where
  "part_clearCompleted env s =
     (case simple_clearCompleted_try env s of
        Inl (e, s1) \<Rightarrow>
          s1\<lparr>console := console s1 @ [(''Error clearing completed todos:'', message e)]\<rparr>
      | Inr s2 \<Rightarrow> s2)"

section \<open>What a run did at the remote collaborator\<close>

text \<open>
  The queries a run from state \<open>s\<close> to state \<open>s'\<close> has sent, read off the trace. A run
  has failed at the remote collaborator when it sent one query and the answer carried an
  error; it has succeeded there when it sent one query and the answer carried none.
\<close>

definition sent :: "state \<Rightarrow> state \<Rightarrow> request list" where
  "sent s s' = drop (length (issued s)) (issued s')"

definition remote_failed :: "env \<Rightarrow> state \<Rightarrow> state \<Rightarrow> bool" where
  "remote_failed env s s' \<longleftrightarrow>
     (case sent s s' of
        [req] \<Rightarrow> resp_error (remote env req) \<noteq> None
      | _ \<Rightarrow> False)"

definition remote_succeeded :: "env \<Rightarrow> state \<Rightarrow> state \<Rightarrow> bool" where
  "remote_succeeded env s s' \<longleftrightarrow>
     (case sent s s' of
        [req] \<Rightarrow> resp_error (remote env req) = None
      | _ \<Rightarrow> False)"

text \<open>
  Modelled from the spec: the remote collaborator is a hosted service, not part of the
  sources; the handlers take its answers as a parameter (\<open>remote\<close>). Its insert is
  "insert one, returning the inserted row": an insert answered without error returns,
  first in its data, a row that carries the text and the completion flag the query gives.
\<close>

definition inserted_row :: "fields \<Rightarrow> todo \<Rightarrow> bool" where
  "inserted_row f row \<longleftrightarrow>
     (case f_text f of Some t \<Rightarrow> todo_text row = t | None \<Rightarrow> True) \<and>
     (case f_completed f of Some b \<Rightarrow> completed row = b | None \<Rightarrow> True)"

definition returns_inserted_row :: "env \<Rightarrow> bool" where
  "returns_inserted_row env \<longleftrightarrow>
     (\<forall>f. resp_error (remote env (Insert f)) = None \<longrightarrow>
          (\<exists>row rest. resp_data (remote env (Insert f)) = Some (row # rest)
                      \<and> inserted_row f row))"

section \<open>Sample inputs\<close>

text \<open>
  Two tasks (\<open>A\<close>, open, and \<open>B\<close>, completed), a state holding them with a blank draft
  in both text fields, a remote collaborator that accepts every query and returns the
  row it inserted, and one that is unreachable.
\<close>

definition task_a :: todo where
  "task_a = \<lparr>todo_id = 1, todo_text = [0x41], completed = False, created_at = 20,
             updated_at = None, user_id = None\<rparr>"

definition task_b :: todo where
  "task_b = \<lparr>todo_id = 2, todo_text = [0x42], completed = True, created_at = 10,
             updated_at = None, user_id = None\<rparr>"

definition example_state :: state where
  "example_state = \<lparr>todos = [task_a, task_b], newTodo = [0x20, 0x09], filter_mode = ''all'',
                    loading = False, error = None, editingTodo = Some 1, editText = [0x20],
                    issued = [], console = []\<rparr>"

fun remote_ok :: "request \<Rightarrow> response" where
  "remote_ok (Insert f) =
     \<lparr>resp_data = Some [\<lparr>todo_id = 3,
                          todo_text = (case f_text f of Some t \<Rightarrow> t | None \<Rightarrow> []),
                          completed = (case f_completed f of Some b \<Rightarrow> b | None \<Rightarrow> False),
                          created_at = (case f_created_at f of Some c \<Rightarrow> c | None \<Rightarrow> 0),
                          updated_at = f_updated_at f,
                          user_id = f_user_id f\<rparr>],
      resp_error = None\<rparr>"
| "remote_ok req = \<lparr>resp_data = None, resp_error = None\<rparr>"

definition remote_down :: "request \<Rightarrow> response" where
  "remote_down req = \<lparr>resp_data = None, resp_error = Some (JsError ''Failed to fetch'')\<rparr>"

definition env_ok :: env where
  "env_ok = \<lparr>remote = remote_ok, Date_now = (\<lambda>k. 30 + k), user = ''u1''\<rparr>"

definition env_down :: env where
  "env_down = \<lparr>remote = remote_down, Date_now = (\<lambda>k. 30 + k), user = ''u1''\<rparr>"

text \<open>The same state with the draft \<^verbatim>\<open>" milk "\<close> in the entry field.\<close>

definition milk_state :: state where
  "milk_state = example_state\<lparr>newTodo := [0x20, 0x6D, 0x69, 0x6C, 0x6B, 0x20]\<rparr>"

text \<open>The completion flags of a list after the flags of the tasks with id \<open>i\<close> are flipped.\<close>

abbreviation flip_flags :: "nat \<Rightarrow> todo list \<Rightarrow> bool list" where
  "flip_flags i xs \<equiv> map (\<lambda>t. if todo_id t = i then \<not> completed t else completed t) xs"

section \<open>Reading the trace\<close>

lemma sent_append [simp]: "issued s' = issued s @ rs \<Longrightarrow> sent s s' = rs"
  by (simp add: sent_def)

text \<open>
  What each handler does with the answer to its query: the query it sends, the list after
  an answer with an error, and the list after an answer without one.
\<close>

lemma auth_addTodo_cases:
  fixes env :: env and s :: state
  assumes "trim (newTodo s) \<noteq> []"
  defines "req \<equiv> Insert \<lparr>f_text = Some (trim (newTodo s)), f_completed = Some False,
                       f_user_id = Some (user env), f_created_at = Some (Date_now env 0),
                       f_updated_at = Some (Date_now env 1)\<rparr>"
  shows "issued (auth_addTodo env s) = issued s @ [req]"
    and "resp_error (remote env req) \<noteq> None \<Longrightarrow> todos (auth_addTodo env s) = todos s"
    and "resp_error (remote env req) = None \<Longrightarrow> resp_data (remote env req) = Some (row # rest)
         \<Longrightarrow> todos (auth_addTodo env s) = row # todos s"
  using assms(1)
  by (auto simp: req_def auth_addTodo_def auth_addTodo_try_def Let_def
      split: option.splits list.splits)

lemma simple_addTodo_cases:
  fixes env :: env and s :: state
  assumes "trim (newTodo s) \<noteq> []"
  defines "req \<equiv> Insert \<lparr>f_text = Some (trim (newTodo s)), f_completed = Some False,
                       f_user_id = None, f_created_at = Some (Date_now env 0),
                       f_updated_at = None\<rparr>"
  shows "issued (simple_addTodo env s) = issued s @ [req]"
    and "resp_error (remote env req) \<noteq> None \<Longrightarrow> todos (simple_addTodo env s) = todos s"
    and "resp_error (remote env req) = None \<Longrightarrow> resp_data (remote env req) = Some (row # rest)
         \<Longrightarrow> todos (simple_addTodo env s) = row # todos s"
  using assms(1)
  by (auto simp: req_def simple_addTodo_def simple_addTodo_try_def Let_def
      split: option.splits list.splits)

lemma saveEdit_cases:
  fixes env :: env and s :: state and i :: nat
  defines "req \<equiv> Update \<lparr>f_text = Some (trim (editText s)), f_completed = None,
                       f_user_id = None, f_created_at = None,
                       f_updated_at = Some (Date_now env 0)\<rparr>
                  [EqId i, EqUserId (user env)]"
  shows "issued (saveEdit env i s) = issued s @ [req]"
    and "resp_error (remote env req) \<noteq> None \<Longrightarrow> todos (saveEdit env i s) = todos s"
    and "resp_error (remote env req) = None \<Longrightarrow>
         todos (saveEdit env i s) = saveEdit_map (Date_now env) 1 i (editText s) (todos s)"
  by (auto simp: req_def saveEdit_def saveEdit_try_def Let_def split: option.splits)

lemma auth_toggleTodo_unknown:
  assumes "find (\<lambda>t. todo_id t = i) (todos s) = None"
  shows "auth_toggleTodo_try env i s = Inl (TypeError_completed, s)"
    and "auth_toggleTodo env i s =
           s\<lparr>console := console s @ [(''Error updating todo:'', message TypeError_completed)],
             error := Some (message TypeError_completed)\<rparr>"
  using assms by (simp_all add: auth_toggleTodo_def auth_toggleTodo_try_def)

lemma auth_toggleTodo_cases:
  fixes env :: env and s :: state and i :: nat and todo :: todo
  assumes "find (\<lambda>t. todo_id t = i) (todos s) = Some todo"
  defines "req \<equiv> Update \<lparr>f_text = None, f_completed = Some (\<not> completed todo),
                            f_user_id = None, f_created_at = None,
                            f_updated_at = Some (Date_now env 0)\<rparr>
                       [EqId i, EqUserId (user env)]"
  shows "issued (auth_toggleTodo env i s) = issued s @ [req]"
    and "resp_error (remote env req) \<noteq> None \<Longrightarrow> todos (auth_toggleTodo env i s) = todos s"
    and "resp_error (remote env req) = None \<Longrightarrow>
         todos (auth_toggleTodo env i s) = auth_toggle_map (Date_now env) 1 i (todos s)"
  using assms(1)
  by (auto simp: req_def auth_toggleTodo_def auth_toggleTodo_try_def Let_def
      split: option.splits)

lemma simple_toggleTodo_unknown:
  assumes "find (\<lambda>t. todo_id t = i) (todos s) = None"
  shows "simple_toggleTodo_try env i s = Inl (TypeError_completed, s)"
    and "page_toggleTodo env i s =
           s\<lparr>console := console s @ [(''Error updating todo:'', message TypeError_completed)],
             error := Some (message TypeError_completed)\<rparr>"
    and "part_toggleTodo env i s =
           s\<lparr>console := console s @ [(''Error updating todo:'', message TypeError_completed)]\<rparr>"
  using assms
  by (simp_all add: page_toggleTodo_def part_toggleTodo_def simple_toggleTodo_try_def)

lemma simple_toggleTodo_cases:
  fixes env :: env and s :: state and i :: nat and todo :: todo
  assumes "find (\<lambda>t. todo_id t = i) (todos s) = Some todo"
  defines "req \<equiv> Update \<lparr>f_text = None, f_completed = Some (\<not> completed todo),
                            f_user_id = None, f_created_at = None, f_updated_at = None\<rparr>
                       [EqId i]"
      and "flipped \<equiv> map (\<lambda>todo. if todo_id todo = i
                                  then todo\<lparr>completed := \<not> completed todo\<rparr>
                                  else todo) (todos s)"
  shows "issued (page_toggleTodo env i s) = issued s @ [req]"
    and "issued (part_toggleTodo env i s) = issued s @ [req]"
    and "resp_error (remote env req) \<noteq> None \<Longrightarrow> todos (page_toggleTodo env i s) = todos s"
    and "resp_error (remote env req) \<noteq> None \<Longrightarrow> todos (part_toggleTodo env i s) = todos s"
    and "resp_error (remote env req) = None \<Longrightarrow> todos (page_toggleTodo env i s) = flipped"
    and "resp_error (remote env req) = None \<Longrightarrow> todos (part_toggleTodo env i s) = flipped"
  using assms(1)
  by (auto simp: req_def flipped_def page_toggleTodo_def part_toggleTodo_def
      simple_toggleTodo_try_def Let_def split: option.splits)

lemma auth_deleteTodo_cases:
  fixes env :: env and i :: nat
  defines "req \<equiv> Delete [EqId i, EqUserId (user env)]"
  shows "issued (auth_deleteTodo env i s) = issued s @ [req]"
    and "resp_error (remote env req) \<noteq> None \<Longrightarrow> todos (auth_deleteTodo env i s) = todos s"
    and "resp_error (remote env req) = None \<Longrightarrow>
         todos (auth_deleteTodo env i s) = filter (\<lambda>todo. todo_id todo \<noteq> i) (todos s)"
  by (auto simp: req_def auth_deleteTodo_def auth_deleteTodo_try_def Let_def
      split: option.splits)

lemma simple_deleteTodo_cases:
  fixes i :: nat
  defines "req \<equiv> Delete [EqId i]"
  shows "issued (page_deleteTodo env i s) = issued s @ [req]"
    and "issued (part_deleteTodo env i s) = issued s @ [req]"
    and "resp_error (remote env req) \<noteq> None \<Longrightarrow> todos (page_deleteTodo env i s) = todos s"
    and "resp_error (remote env req) \<noteq> None \<Longrightarrow> todos (part_deleteTodo env i s) = todos s"
    and "resp_error (remote env req) = None \<Longrightarrow>
         todos (page_deleteTodo env i s) = filter (\<lambda>todo. todo_id todo \<noteq> i) (todos s)"
    and "resp_error (remote env req) = None \<Longrightarrow>
         todos (part_deleteTodo env i s) = filter (\<lambda>todo. todo_id todo \<noteq> i) (todos s)"
  by (auto simp: req_def page_deleteTodo_def part_deleteTodo_def simple_deleteTodo_try_def
      Let_def split: option.splits)

lemma auth_clearCompleted_cases:
  fixes env :: env
  defines "req \<equiv> Delete [EqCompleted True, EqUserId (user env)]"
  shows "issued (auth_clearCompleted env s) = issued s @ [req]"
    and "resp_error (remote env req) \<noteq> None \<Longrightarrow> todos (auth_clearCompleted env s) = todos s"
    and "resp_error (remote env req) = None \<Longrightarrow>
         todos (auth_clearCompleted env s) = filter (\<lambda>todo. \<not> completed todo) (todos s)"
  by (auto simp: req_def auth_clearCompleted_def auth_clearCompleted_try_def Let_def
      split: option.splits)

lemma simple_clearCompleted_cases:
  defines "req \<equiv> Delete [EqCompleted True]"
  shows "issued (page_clearCompleted env s) = issued s @ [req]"
    and "issued (part_clearCompleted env s) = issued s @ [req]"
    and "resp_error (remote env req) \<noteq> None \<Longrightarrow> todos (page_clearCompleted env s) = todos s"
    and "resp_error (remote env req) \<noteq> None \<Longrightarrow> todos (part_clearCompleted env s) = todos s"
    and "resp_error (remote env req) = None \<Longrightarrow>
         todos (page_clearCompleted env s) = filter (\<lambda>todo. \<not> completed todo) (todos s)"
    and "resp_error (remote env req) = None \<Longrightarrow>
         todos (part_clearCompleted env s) = filter (\<lambda>todo. \<not> completed todo) (todos s)"
  by (auto simp: req_def page_clearCompleted_def part_clearCompleted_def
      simple_clearCompleted_try_def Let_def split: option.splits)

lemma remote_failedD:
  "remote_failed env s s' \<Longrightarrow> issued s' = issued s @ [req] \<Longrightarrow> resp_error (remote env req) \<noteq> None"
  by (simp add: remote_failed_def)

lemma remote_succeededD:
  "remote_succeeded env s s' \<Longrightarrow> issued s' = issued s @ [req] \<Longrightarrow> resp_error (remote env req) = None"
  by (simp add: remote_succeeded_def)

lemma env_ok_no_error: "resp_error (remote env_ok req) = None"
  by (cases req) (simp_all add: env_ok_def)

section \<open>Validation of a new task\<close>

text \<open>
  C1. For every input text whose \<^verbatim>\<open>trim()\<close> is empty, \<^verbatim>\<open>addTodo\<close> (in the
  authenticated and in the single-user component) sends no query to the remote
  collaborator, sets the error state to a message (not \<^verbatim>\<open>null\<close>), and leaves the
  local list of tasks as it was.
\<close>

theorem addTodo_blank_rejected:
  assumes "trim (newTodo s) = []"
  shows "issued (auth_addTodo env s) = issued s
       \<and> error (auth_addTodo env s) \<noteq> None
       \<and> todos (auth_addTodo env s) = todos s
       \<and> issued (simple_addTodo env s) = issued s
       \<and> error (simple_addTodo env s) \<noteq> None
       \<and> todos (simple_addTodo env s) = todos s"
  using assms by (simp add: auth_addTodo_def simple_addTodo_def)

theorem addTodo_blank_rejected_witness:
  "trim (newTodo example_state) = []
   \<and> issued (auth_addTodo env_down example_state) = issued example_state
   \<and> error (auth_addTodo env_down example_state) \<noteq> None
   \<and> todos (auth_addTodo env_down example_state) = todos example_state
   \<and> issued (simple_addTodo env_down example_state) = issued example_state
   \<and> error (simple_addTodo env_down example_state) \<noteq> None
   \<and> todos (simple_addTodo env_down example_state) = todos example_state"
proof -
  have blank: "trim (newTodo example_state) = []"
    by (simp add: example_state_def trim_def isWhiteSpace_def)
  show ?thesis
    using blank addTodo_blank_rejected [OF blank, of env_down] by simp
qed

section \<open>Saving an edited text\<close>

text \<open>
  C2 states that \<^verbatim>\<open>saveEdit\<close> with a draft whose \<^verbatim>\<open>trim()\<close> is empty sends no
  update and never replaces a task's text by an empty one. The handler has no such check
  (\<open>saveEdit_cases\<close>: it sends its update whatever the draft is), while
  \<^verbatim>\<open>addTodo\<close> of the same component rejects a blank text. On the sample state, whose
  draft is one space, editing task 1 sends an update with the empty text and, once the
  remote collaborator has accepted it, the text of task 1 in the local list is empty.
\<close>

theorem saveEdit_blank_text_is_persisted:
  "trim (editText example_state) = []
   \<and> issued (saveEdit env_ok 1 example_state) =
       [Update \<lparr>f_text = Some [], f_completed = None, f_user_id = None, f_created_at = None,
                f_updated_at = Some 30\<rparr> [EqId 1, EqUserId ''u1'']]
   \<and> map todo_text (todos example_state) = [[0x41], [0x42]]
   \<and> map todo_text (todos (saveEdit env_ok 1 example_state)) = [[], [0x42]]
   \<and> error (saveEdit env_ok 1 example_state) = None"
  by (simp add: saveEdit_def saveEdit_try_def example_state_def env_ok_def task_a_def task_b_def
      trim_def isWhiteSpace_def)

section \<open>Failures of the remote collaborator\<close>

text \<open>
  In the authenticated component and in src/app/page.js every handler that sent a query
  and got an error back leaves a message in the error state.
\<close>

lemma auth_failure_is_surfaced:
  shows "remote_failed env s (auth_fetchTodos env s) \<Longrightarrow> error (auth_fetchTodos env s) \<noteq> None"
    and "remote_failed env s (auth_addTodo env s) \<Longrightarrow> error (auth_addTodo env s) \<noteq> None"
    and "remote_failed env s (saveEdit env i s) \<Longrightarrow> error (saveEdit env i s) \<noteq> None"
    and "remote_failed env s (auth_toggleTodo env i s) \<Longrightarrow> error (auth_toggleTodo env i s) \<noteq> None"
    and "remote_failed env s (auth_deleteTodo env i s) \<Longrightarrow> error (auth_deleteTodo env i s) \<noteq> None"
    and "remote_failed env s (auth_clearCompleted env s) \<Longrightarrow> error (auth_clearCompleted env s) \<noteq> None"
  by (auto simp: remote_failed_def sent_def auth_fetchTodos_def auth_fetchTodos_try_def
      auth_addTodo_def auth_addTodo_try_def saveEdit_def saveEdit_try_def
      auth_toggleTodo_def auth_toggleTodo_try_def auth_deleteTodo_def auth_deleteTodo_try_def
      auth_clearCompleted_def auth_clearCompleted_try_def Let_def
      split: option.splits list.splits if_splits)

lemma page_failure_is_surfaced:
  shows "remote_failed env s (simple_fetchTodos env s) \<Longrightarrow> error (simple_fetchTodos env s) \<noteq> None"
    and "remote_failed env s (simple_addTodo env s) \<Longrightarrow> error (simple_addTodo env s) \<noteq> None"
    and "remote_failed env s (page_toggleTodo env i s) \<Longrightarrow> error (page_toggleTodo env i s) \<noteq> None"
    and "remote_failed env s (page_deleteTodo env i s) \<Longrightarrow> error (page_deleteTodo env i s) \<noteq> None"
    and "remote_failed env s (page_clearCompleted env s) \<Longrightarrow> error (page_clearCompleted env s) \<noteq> None"
  by (auto simp: remote_failed_def sent_def simple_fetchTodos_def simple_fetchTodos_try_def
      simple_addTodo_def simple_addTodo_try_def
      page_toggleTodo_def simple_toggleTodo_try_def page_deleteTodo_def simple_deleteTodo_try_def
      page_clearCompleted_def simple_clearCompleted_try_def Let_def
      split: option.splits list.splits if_splits)

text \<open>
  In unnamed/part_000 the \<^verbatim>\<open>catch\<close> blocks of \<^verbatim>\<open>toggleTodo\<close>,
  \<^verbatim>\<open>deleteTodo\<close> and \<^verbatim>\<open>clearCompleted\<close> only log: the error state stays what
  it was.
\<close>

lemma part_000_never_sets_error:
  "error (part_toggleTodo env i s) = error s"
  "error (part_deleteTodo env i s) = error s"
  "error (part_clearCompleted env s) = error s"
  by (simp_all add: part_toggleTodo_def simple_toggleTodo_try_def
      part_deleteTodo_def simple_deleteTodo_try_def
      part_clearCompleted_def simple_clearCompleted_try_def Let_def split: option.split)

text \<open>
  C3 states that for every remote operation, in either variant, a failure reported by the
  remote collaborator is caught, logged, and turned into an error-state message (not
  \<^verbatim>\<open>null\<close>). With the collaborator unreachable and no error shown before, the three
  handlers of unnamed/part_000 log the failure and leave the error state \<^verbatim>\<open>null\<close>;
  the same handlers of src/app/page.js and of the authenticated component set it.
\<close>

theorem part_000_failure_is_not_surfaced:
  "remote_failed env_down example_state (part_deleteTodo env_down 1 example_state)
   \<and> error (part_deleteTodo env_down 1 example_state) = None
   \<and> console (part_deleteTodo env_down 1 example_state) =
       [(''Error deleting todo:'', ''Failed to fetch'')]
   \<and> remote_failed env_down example_state (part_toggleTodo env_down 1 example_state)
   \<and> error (part_toggleTodo env_down 1 example_state) = None
   \<and> remote_failed env_down example_state (part_clearCompleted env_down example_state)
   \<and> error (part_clearCompleted env_down example_state) = None
   \<and> error (page_deleteTodo env_down 1 example_state) = Some ''Failed to fetch''
   \<and> error (auth_deleteTodo env_down 1 example_state) = Some ''Failed to fetch''"
  by (simp add: remote_failed_def sent_def
      part_deleteTodo_def page_deleteTodo_def simple_deleteTodo_try_def
      part_toggleTodo_def simple_toggleTodo_try_def
      part_clearCompleted_def simple_clearCompleted_try_def
      auth_deleteTodo_def auth_deleteTodo_try_def
      example_state_def env_down_def remote_down_def task_a_def task_b_def)

text \<open>The list after a failed query, handler by handler.\<close>

lemma auth_addTodo_failed:
  assumes "remote_failed env s (auth_addTodo env s)"
  shows "todos (auth_addTodo env s) = todos s"
proof (cases "trim (newTodo s) = []")
  case True
  then show ?thesis by (simp add: auth_addTodo_def)
next
  case False
  show ?thesis
    using remote_failedD [OF assms auth_addTodo_cases(1) [OF False]]
    by (rule auth_addTodo_cases(2) [OF False])
qed

lemma simple_addTodo_failed:
  assumes "remote_failed env s (simple_addTodo env s)"
  shows "todos (simple_addTodo env s) = todos s"
proof (cases "trim (newTodo s) = []")
  case True
  then show ?thesis by (simp add: simple_addTodo_def)
next
  case False
  show ?thesis
    using remote_failedD [OF assms simple_addTodo_cases(1) [OF False]]
    by (rule simple_addTodo_cases(2) [OF False])
qed

lemma saveEdit_failed:
  assumes "remote_failed env s (saveEdit env i s)"
  shows "todos (saveEdit env i s) = todos s"
  using remote_failedD [OF assms saveEdit_cases(1)] by (rule saveEdit_cases(2))

lemma auth_toggleTodo_failed:
  assumes "remote_failed env s (auth_toggleTodo env i s)"
  shows "todos (auth_toggleTodo env i s) = todos s"
proof (cases "find (\<lambda>t. todo_id t = i) (todos s)")
  case None
  then show ?thesis by (simp add: auth_toggleTodo_unknown)
next
  case (Some todo)
  show ?thesis
    using remote_failedD [OF assms auth_toggleTodo_cases(1) [OF Some]]
    by (rule auth_toggleTodo_cases(2) [OF Some])
qed

lemma simple_toggleTodo_failed:
  shows "remote_failed env s (page_toggleTodo env i s) \<Longrightarrow> todos (page_toggleTodo env i s) = todos s"
    and "remote_failed env s (part_toggleTodo env i s) \<Longrightarrow> todos (part_toggleTodo env i s) = todos s"
proof -
  show "todos (page_toggleTodo env i s) = todos s" if f: "remote_failed env s (page_toggleTodo env i s)"
  proof (cases "find (\<lambda>t. todo_id t = i) (todos s)")
    case None
    then show ?thesis by (simp add: simple_toggleTodo_unknown)
  next
    case (Some todo)
    show ?thesis
      using remote_failedD [OF f simple_toggleTodo_cases(1) [OF Some]]
      by (rule simple_toggleTodo_cases(3) [OF Some])
  qed
  show "todos (part_toggleTodo env i s) = todos s" if f: "remote_failed env s (part_toggleTodo env i s)"
  proof (cases "find (\<lambda>t. todo_id t = i) (todos s)")
    case None
    then show ?thesis by (simp add: simple_toggleTodo_unknown)
  next
    case (Some todo)
    show ?thesis
      using remote_failedD [OF f simple_toggleTodo_cases(2) [OF Some]]
      by (rule simple_toggleTodo_cases(4) [OF Some])
  qed
qed

lemma deleteTodo_failed:
  shows "remote_failed env s (auth_deleteTodo env i s) \<Longrightarrow> todos (auth_deleteTodo env i s) = todos s"
    and "remote_failed env s (page_deleteTodo env i s) \<Longrightarrow> todos (page_deleteTodo env i s) = todos s"
    and "remote_failed env s (part_deleteTodo env i s) \<Longrightarrow> todos (part_deleteTodo env i s) = todos s"
  using remote_failedD [OF _ auth_deleteTodo_cases(1)] remote_failedD [OF _ simple_deleteTodo_cases(1)]
    remote_failedD [OF _ simple_deleteTodo_cases(2)]
  by (simp_all add: auth_deleteTodo_cases(2) simple_deleteTodo_cases(3,4))

lemma clearCompleted_failed:
  shows "remote_failed env s (auth_clearCompleted env s) \<Longrightarrow> todos (auth_clearCompleted env s) = todos s"
    and "remote_failed env s (page_clearCompleted env s) \<Longrightarrow> todos (page_clearCompleted env s) = todos s"
    and "remote_failed env s (part_clearCompleted env s) \<Longrightarrow> todos (part_clearCompleted env s) = todos s"
  using remote_failedD [OF _ auth_clearCompleted_cases(1)]
    remote_failedD [OF _ simple_clearCompleted_cases(1)]
    remote_failedD [OF _ simple_clearCompleted_cases(2)]
  by (simp_all add: auth_clearCompleted_cases(2) simple_clearCompleted_cases(3,4))

text \<open>
  C4. For every mutation (add, toggle, edit, delete, clear-completed, in each component)
  whose query the remote collaborator answers with an error, the local list of tasks after
  the run is the list before it.
\<close>

theorem failed_mutation_keeps_list:
  assumes "h \<in> {auth_addTodo env, saveEdit env i, auth_toggleTodo env i, auth_deleteTodo env i,
                 auth_clearCompleted env, simple_addTodo env,
                 page_toggleTodo env i, page_deleteTodo env i, page_clearCompleted env,
                 part_toggleTodo env i, part_deleteTodo env i, part_clearCompleted env}"
      and "remote_failed env s (h s)"
  shows "todos (h s) = todos s"
  using assms
  by (elim insertE emptyE)
    (simp_all add: auth_addTodo_failed simple_addTodo_failed saveEdit_failed
      auth_toggleTodo_failed simple_toggleTodo_failed deleteTodo_failed clearCompleted_failed)

theorem failed_mutation_keeps_list_witness:
  "remote_failed env_down example_state (auth_deleteTodo env_down 1 example_state)
   \<and> todos (auth_deleteTodo env_down 1 example_state) = [task_a, task_b]"
proof -
  have failed: "remote_failed env_down example_state (auth_deleteTodo env_down 1 example_state)"
    by (simp add: remote_failed_def auth_deleteTodo_cases(1) env_down_def remote_down_def)
  have "auth_deleteTodo env_down 1 \<in> {auth_addTodo env_down, saveEdit env_down 1,
          auth_toggleTodo env_down 1, auth_deleteTodo env_down 1,
          auth_clearCompleted env_down, simple_addTodo env_down,
          page_toggleTodo env_down 1, page_deleteTodo env_down 1, page_clearCompleted env_down,
          part_toggleTodo env_down 1, part_deleteTodo env_down 1, part_clearCompleted env_down}"
    by simp
  from failed_mutation_keeps_list [OF this failed] failed show ?thesis
    by (simp add: example_state_def)
qed

section \<open>Adding a task\<close>

text \<open>
  C5. For every input text that is not blank, \<^verbatim>\<open>addTodo\<close> sends its insert (the
  trimmed text, \<^verbatim>\<open>completed = false\<close>), and when the remote collaborator answers
  that insert without error (returning the inserted row), the local list is the returned
  row, with the trimmed text and \<^verbatim>\<open>completed = false\<close>, followed by the former
  list, unchanged and in its former order. Each component is paired with the query its
  handler builds.
\<close>

theorem addTodo_success_prepends:
  assumes "(addTodo, query) \<in>
             {(auth_addTodo,
               \<lambda>env s. Insert \<lparr>f_text = Some (trim (newTodo s)), f_completed = Some False,
                                f_user_id = Some (user env),
                                f_created_at = Some (Date_now env 0),
                                f_updated_at = Some (Date_now env 1)\<rparr>),
              (simple_addTodo,
               \<lambda>env s. Insert \<lparr>f_text = Some (trim (newTodo s)), f_completed = Some False,
                                f_user_id = None, f_created_at = Some (Date_now env 0),
                                f_updated_at = None\<rparr>)}"
      and "trim (newTodo s) \<noteq> []"
      and "resp_error (remote env (query env s)) = None"
      and "returns_inserted_row env"
  shows "issued (addTodo env s) = issued s @ [query env s]
       \<and> (\<exists>row rest. resp_data (remote env (query env s)) = Some (row # rest)
              \<and> todos (addTodo env s) = row # todos s
              \<and> todo_text row = trim (newTodo s) \<and> \<not> completed row)"
proof -
  from assms(1) obtain f where query: "query env s = Insert f"
    and f: "f_text f = Some (trim (newTodo s))" "f_completed f = Some False"
    by (elim insertE emptyE) simp_all
  from assms(3,4) query obtain row rest
    where data: "resp_data (remote env (query env s)) = Some (row # rest)"
      and row: "inserted_row f row"
    unfolding returns_inserted_row_def by metis
  from row f have fields: "todo_text row = trim (newTodo s)" "\<not> completed row"
    by (simp_all add: inserted_row_def)
  from assms(1) have "issued (addTodo env s) = issued s @ [query env s]
       \<and> todos (addTodo env s) = row # todos s"
  proof (elim insertE emptyE)
    assume "(addTodo, query) = (auth_addTodo,
               \<lambda>env s. Insert \<lparr>f_text = Some (trim (newTodo s)), f_completed = Some False,
                                f_user_id = Some (user env),
                                f_created_at = Some (Date_now env 0),
                                f_updated_at = Some (Date_now env 1)\<rparr>)"
    with assms(3) data auth_addTodo_cases [OF assms(2), of env] show ?thesis by simp
  next
    assume "(addTodo, query) = (simple_addTodo,
               \<lambda>env s. Insert \<lparr>f_text = Some (trim (newTodo s)), f_completed = Some False,
                                f_user_id = None, f_created_at = Some (Date_now env 0),
                                f_updated_at = None\<rparr>)"
    with assms(3) data simple_addTodo_cases [OF assms(2), of env] show ?thesis by simp
  qed
  with data fields show ?thesis by blast
qed

theorem addTodo_success_prepends_witness:
  "trim (newTodo milk_state) \<noteq> []
   \<and> returns_inserted_row env_ok
   \<and> resp_error (remote env_ok
         (Insert \<lparr>f_text = Some (trim (newTodo milk_state)), f_completed = Some False,
                  f_user_id = Some (user env_ok), f_created_at = Some (Date_now env_ok 0),
                  f_updated_at = Some (Date_now env_ok 1)\<rparr>)) = None
   \<and> issued (auth_addTodo env_ok milk_state) =
       [Insert \<lparr>f_text = Some [0x6D, 0x69, 0x6C, 0x6B], f_completed = Some False,
                f_user_id = Some ''u1'', f_created_at = Some 30, f_updated_at = Some 31\<rparr>]
   \<and> (\<exists>row. todos (auth_addTodo env_ok milk_state) = [row, task_a, task_b]
          \<and> todo_text row = [0x6D, 0x69, 0x6C, 0x6B] \<and> \<not> completed row)
   \<and> resp_error (remote env_ok
         (Insert \<lparr>f_text = Some (trim (newTodo milk_state)), f_completed = Some False,
                  f_user_id = None, f_created_at = Some (Date_now env_ok 0),
                  f_updated_at = None\<rparr>)) = None
   \<and> issued (simple_addTodo env_ok milk_state) =
       [Insert \<lparr>f_text = Some [0x6D, 0x69, 0x6C, 0x6B], f_completed = Some False,
                f_user_id = None, f_created_at = Some 30, f_updated_at = None\<rparr>]
   \<and> (\<exists>row. todos (simple_addTodo env_ok milk_state) = [row, task_a, task_b]
          \<and> todo_text row = [0x6D, 0x69, 0x6C, 0x6B] \<and> \<not> completed row)"
proof -
  let ?auth = "\<lambda>env s. Insert \<lparr>f_text = Some (trim (newTodo s)), f_completed = Some False,
                                f_user_id = Some (user env),
                                f_created_at = Some (Date_now env 0),
                                f_updated_at = Some (Date_now env 1)\<rparr>"
  let ?simple = "\<lambda>env s. Insert \<lparr>f_text = Some (trim (newTodo s)), f_completed = Some False,
                                f_user_id = None, f_created_at = Some (Date_now env 0),
                                f_updated_at = None\<rparr>"
  have milk: "trim (newTodo milk_state) = [0x6D, 0x69, 0x6C, 0x6B]"
    by (simp add: milk_state_def trim_def isWhiteSpace_def)
  then have nonblank: "trim (newTodo milk_state) \<noteq> []" by simp
  have contract: "returns_inserted_row env_ok"
    by (simp add: returns_inserted_row_def env_ok_def inserted_row_def split: option.split)
  have accepted: "resp_error (remote env_ok (?auth env_ok milk_state)) = None"
      "resp_error (remote env_ok (?simple env_ok milk_state)) = None"
    by (rule env_ok_no_error)+
  have state: "issued milk_state = []" "todos milk_state = [task_a, task_b]"
      "Date_now env_ok 0 = 30" "Date_now env_ok 1 = 31" "user env_ok = ''u1''"
    by (simp_all add: milk_state_def example_state_def env_ok_def)
  have variants: "(auth_addTodo, ?auth) \<in> {(auth_addTodo, ?auth), (simple_addTodo, ?simple)}"
      "(simple_addTodo, ?simple) \<in> {(auth_addTodo, ?auth), (simple_addTodo, ?simple)}"
    by simp_all
  from addTodo_success_prepends [OF variants(1) nonblank accepted(1) contract]
    addTodo_success_prepends [OF variants(2) nonblank accepted(2) contract]
    nonblank contract accepted
  show ?thesis unfolding milk state by auto
qed

section \<open>Toggling completion\<close>

lemma auth_toggle_map_id: "map todo_id (auth_toggle_map now k i xs) = map todo_id xs"
  by (induction xs arbitrary: k) simp_all

lemma auth_toggle_map_text: "map todo_text (auth_toggle_map now k i xs) = map todo_text xs"
  by (induction xs arbitrary: k) simp_all

lemma auth_toggle_map_completed:
  "map completed (auth_toggle_map now k i xs)
     = map (\<lambda>t. if todo_id t = i then \<not> completed t else completed t) xs"
  by (induction xs arbitrary: k) simp_all

lemma simple_toggle_id:
  "map todo_id (map (\<lambda>t. if todo_id t = i then t\<lparr>completed := \<not> completed t\<rparr> else t) xs)
     = map todo_id xs"
  by (induction xs) simp_all

lemma simple_toggle_text:
  "map todo_text (map (\<lambda>t. if todo_id t = i then t\<lparr>completed := \<not> completed t\<rparr> else t) xs)
     = map todo_text xs"
  by (induction xs) simp_all

lemma simple_toggle_completed:
  "map completed (map (\<lambda>t. if todo_id t = i then t\<lparr>completed := \<not> completed t\<rparr> else t) xs)
     = map (\<lambda>t. if todo_id t = i then \<not> completed t else completed t) xs"
  by (induction xs) simp_all

lemma flip_flags_twice:
  assumes "map todo_id ys = map todo_id xs" and "map completed ys = flip_flags i xs"
  shows "flip_flags i ys = map completed xs"
  using assms
proof (induction xs arbitrary: ys)
  case Nil
  then show ?case by simp
next
  case (Cons x xs)
  from Cons.prems(1) obtain y ys' where ys: "ys = y # ys'" by (cases ys) auto
  from Cons.prems ys have head: "todo_id y = todo_id x"
      "completed y = (if todo_id x = i then \<not> completed x else completed x)"
    and tail: "map todo_id ys' = map todo_id xs" "map completed ys' = flip_flags i xs"
    by simp_all
  from Cons.IH [OF tail] have "flip_flags i ys' = map completed xs" .
  with head ys show ?case by simp
qed

lemma known_id_found:
  assumes "i \<in> todo_id ` set xs"
  obtains todo where "find (\<lambda>t. todo_id t = i) xs = Some todo"
  using assms by (cases "find (\<lambda>t. todo_id t = i) xs") (auto simp: find_None_iff)

lemma auth_toggleTodo_succeeded:
  assumes "remote_succeeded env s (auth_toggleTodo env i s)"
  shows "todos (auth_toggleTodo env i s) = auth_toggle_map (Date_now env) 1 i (todos s)"
proof (cases "find (\<lambda>t. todo_id t = i) (todos s)")
  case None
  with assms show ?thesis
    by (simp add: auth_toggleTodo_unknown remote_succeeded_def)
next
  case (Some todo)
  show ?thesis
    using remote_succeededD [OF assms auth_toggleTodo_cases(1) [OF Some]]
    by (rule auth_toggleTodo_cases(3) [OF Some])
qed

lemma page_toggleTodo_succeeded:
  assumes "remote_succeeded env s (page_toggleTodo env i s)"
  shows "todos (page_toggleTodo env i s) =
           map (\<lambda>t. if todo_id t = i then t\<lparr>completed := \<not> completed t\<rparr> else t) (todos s)"
proof (cases "find (\<lambda>t. todo_id t = i) (todos s)")
  case None
  with assms show ?thesis
    by (simp add: simple_toggleTodo_unknown remote_succeeded_def)
next
  case (Some todo)
  show ?thesis
    using remote_succeededD [OF assms simple_toggleTodo_cases(1) [OF Some]]
    by (rule simple_toggleTodo_cases(5) [OF Some])
qed

lemma part_toggleTodo_succeeded:
  assumes "remote_succeeded env s (part_toggleTodo env i s)"
  shows "todos (part_toggleTodo env i s) =
           map (\<lambda>t. if todo_id t = i then t\<lparr>completed := \<not> completed t\<rparr> else t) (todos s)"
proof (cases "find (\<lambda>t. todo_id t = i) (todos s)")
  case None
  with assms show ?thesis
    by (simp add: simple_toggleTodo_unknown remote_succeeded_def)
next
  case (Some todo)
  show ?thesis
    using remote_succeededD [OF assms simple_toggleTodo_cases(2) [OF Some]]
    by (rule simple_toggleTodo_cases(6) [OF Some])
qed

lemma toggleTodo_succeeded_fields:
  assumes "toggleTodo \<in> {auth_toggleTodo, page_toggleTodo, part_toggleTodo}"
      and "remote_succeeded env s (toggleTodo env i s)"
  shows "map todo_id (todos (toggleTodo env i s)) = map todo_id (todos s)"
    and "map todo_text (todos (toggleTodo env i s)) = map todo_text (todos s)"
    and "map completed (todos (toggleTodo env i s)) = flip_flags i (todos s)"
  using assms
  by (auto simp: auth_toggleTodo_succeeded page_toggleTodo_succeeded part_toggleTodo_succeeded
        auth_toggle_map_id auth_toggle_map_text auth_toggle_map_completed
        simple_toggle_id simple_toggle_text simple_toggle_completed simp del: map_map)

text \<open>
  C6. For every list of tasks with pairwise distinct ids and every id in it, two runs of
  \<^verbatim>\<open>toggleTodo\<close> on that id, both accepted by the remote collaborator, give a list
  with the same ids in the same places and the same completion flag at every place: the
  flag of the task is back to its value and no other flag has changed. (After the first
  run alone, the flag of that id is flipped.)
\<close>

theorem toggle_twice_restores:
  assumes "toggleTodo \<in> {auth_toggleTodo, page_toggleTodo, part_toggleTodo}"
      and "distinct (map todo_id (todos s))"
      and "i \<in> todo_id ` set (todos s)"
      and "s1 = toggleTodo env1 i s"
      and "remote_succeeded env1 s s1"
      and "s2 = toggleTodo env2 i s1"
      and "remote_succeeded env2 s1 s2"
  shows "map todo_id (todos s2) = map todo_id (todos s)
       \<and> map completed (todos s2) = map completed (todos s)
       \<and> map completed (todos s1) =
           map (\<lambda>t. if todo_id t = i then \<not> completed t else completed t) (todos s)"
proof -
  have first: "map todo_id (todos s1) = map todo_id (todos s)"
      "map completed (todos s1) = flip_flags i (todos s)"
    using assms(1,4,5) toggleTodo_succeeded_fields [of toggleTodo env1 s i] by simp_all
  have second: "map todo_id (todos s2) = map todo_id (todos s1)"
      "map completed (todos s2) = flip_flags i (todos s1)"
    using assms(1,6,7) toggleTodo_succeeded_fields [of toggleTodo env2 s1 i] by simp_all
  from first second flip_flags_twice [OF first] show ?thesis by simp
qed

theorem toggle_twice_restores_witness:
  "distinct (map todo_id (todos example_state))
   \<and> 2 \<in> todo_id ` set (todos example_state)
   \<and> remote_succeeded env_ok example_state (auth_toggleTodo env_ok 2 example_state)
   \<and> remote_succeeded env_ok (auth_toggleTodo env_ok 2 example_state)
        (auth_toggleTodo env_ok 2 (auth_toggleTodo env_ok 2 example_state))
   \<and> map completed (todos (auth_toggleTodo env_ok 2 (auth_toggleTodo env_ok 2 example_state)))
       = [False, True]
   \<and> map completed (todos (auth_toggleTodo env_ok 2 example_state)) = [False, False]"
proof -
  let ?s1 = "auth_toggleTodo env_ok 2 example_state"
  let ?s2 = "auth_toggleTodo env_ok 2 ?s1"
  have ids: "distinct (map todo_id (todos example_state))"
    and known: "2 \<in> todo_id ` set (todos example_state)"
    by (simp_all add: example_state_def task_a_def task_b_def)
  have found: "find (\<lambda>t. todo_id t = 2) (todos example_state) = Some task_b"
    by (simp add: example_state_def task_a_def task_b_def)
  have ok1: "remote_succeeded env_ok example_state ?s1"
    by (simp add: remote_succeeded_def auth_toggleTodo_cases(1) [OF found] env_ok_def)
  have "2 \<in> todo_id ` set (todos ?s1)"
    using known toggleTodo_succeeded_fields(1) [of auth_toggleTodo env_ok example_state 2] ok1
    by (metis insertI1 list.set_map)
  then obtain todo where found1: "find (\<lambda>t. todo_id t = 2) (todos ?s1) = Some todo"
    by (rule known_id_found)
  have ok2: "remote_succeeded env_ok ?s1 ?s2"
    by (simp add: remote_succeeded_def auth_toggleTodo_cases(1) [OF found1] env_ok_no_error)
  have "auth_toggleTodo \<in> {auth_toggleTodo, page_toggleTodo, part_toggleTodo}" by simp
  from toggle_twice_restores [OF this ids known refl ok1 refl ok2] ids known ok1 ok2
  show ?thesis by (simp add: example_state_def task_a_def task_b_def)
qed

text \<open>
  C10. For every id that is not in the local list, \<^verbatim>\<open>toggleTodo\<close> does not crash:
  \<^verbatim>\<open>todos.find\<close> returns no task, the \<^verbatim>\<open>try\<close> block throws the
  \<^verbatim>\<open>TypeError\<close> of reading \<^verbatim>\<open>completed\<close> before any query is sent, the
  \<^verbatim>\<open>catch\<close> block of the handler takes it (and logs it), and the local list is
  left as it was.
\<close>

theorem toggle_unknown_id_is_caught:
  assumes "(toggleTodo_try, toggleTodo) \<in>
             {(auth_toggleTodo_try, auth_toggleTodo),
              (simple_toggleTodo_try, page_toggleTodo),
              (simple_toggleTodo_try, part_toggleTodo)}"
      and "i \<notin> todo_id ` set (todos s)"
  shows "find (\<lambda>t. todo_id t = i) (todos s) = None
       \<and> toggleTodo_try env i s = Inl (TypeError_completed, s)
       \<and> todos (toggleTodo env i s) = todos s
       \<and> issued (toggleTodo env i s) = issued s
       \<and> console (toggleTodo env i s) =
           console s @ [(''Error updating todo:'', message TypeError_completed)]"
proof -
  from assms(2) have none: "find (\<lambda>t. todo_id t = i) (todos s) = None"
    by (auto simp: find_None_iff)
  from assms(1) show ?thesis
    by (elim insertE emptyE)
       (simp_all add: none auth_toggleTodo_unknown [OF none] simple_toggleTodo_unknown [OF none])
qed

theorem toggle_unknown_id_is_caught_witness:
  "7 \<notin> todo_id ` set (todos example_state)
   \<and> simple_toggleTodo_try env_ok 7 example_state = Inl (TypeError_completed, example_state)
   \<and> todos (part_toggleTodo env_ok 7 example_state) = [task_a, task_b]
   \<and> issued (part_toggleTodo env_ok 7 example_state) = []
   \<and> console (part_toggleTodo env_ok 7 example_state) =
       [(''Error updating todo:'', message TypeError_completed)]"
proof -
  have unknown: "7 \<notin> todo_id ` set (todos example_state)"
    by (simp add: example_state_def task_a_def task_b_def)
  have "(simple_toggleTodo_try, part_toggleTodo) \<in>
             {(auth_toggleTodo_try, auth_toggleTodo),
              (simple_toggleTodo_try, page_toggleTodo),
              (simple_toggleTodo_try, part_toggleTodo)}"
    by simp
  from toggle_unknown_id_is_caught [OF this unknown, of env_ok] unknown
  show ?thesis by (simp add: example_state_def)
qed

section \<open>Deleting\<close>

lemma filter_out_known_id:
  assumes "distinct (map todo_id xs)" and "i \<in> todo_id ` set xs"
  shows "\<exists>before t after. xs = before @ t # after \<and> todo_id t = i
           \<and> i \<notin> todo_id ` set (before @ after)
           \<and> filter (\<lambda>todo. todo_id todo \<noteq> i) xs = before @ after"
proof -
  from assms(2) obtain t where "t \<in> set xs" and t: "todo_id t = i" by auto
  then obtain before after where xs: "xs = before @ t # after"
    by (auto dest: split_list)
  from assms(1) have fresh: "i \<notin> todo_id ` set before" "i \<notin> todo_id ` set after"
    unfolding xs t [symmetric] by auto
  then have "filter (\<lambda>todo. todo_id todo \<noteq> i) before = before"
    and "filter (\<lambda>todo. todo_id todo \<noteq> i) after = after"
    by (auto simp: filter_id_conv)
  with t have "filter (\<lambda>todo. todo_id todo \<noteq> i) xs = before @ after"
    by (simp add: xs)
  with xs t fresh show ?thesis by (metis image_Un set_append Un_iff)
qed

text \<open>
  C7. For every list of tasks with pairwise distinct ids and every id in it,
  \<^verbatim>\<open>deleteTodo\<close> sends its delete, and when the remote collaborator answers that
  delete without error, the one entry with that id is removed and every other entry is
  left in place, unchanged. Each component is paired with the query its handler builds.
\<close>

theorem delete_removes_exactly_one:
  assumes "(deleteTodo, query) \<in>
             {(auth_deleteTodo, \<lambda>env i. Delete [EqId i, EqUserId (user env)]),
              (page_deleteTodo, \<lambda>env i. Delete [EqId i]),
              (part_deleteTodo, \<lambda>env i. Delete [EqId i])}"
      and "distinct (map todo_id (todos s))"
      and "i \<in> todo_id ` set (todos s)"
      and "resp_error (remote env (query env i)) = None"
  shows "issued (deleteTodo env i s) = issued s @ [query env i]
       \<and> (\<exists>before t after. todos s = before @ t # after \<and> todo_id t = i
              \<and> i \<notin> todo_id ` set (before @ after)
              \<and> todos (deleteTodo env i s) = before @ after)"
proof -
  from assms(1,4) have "issued (deleteTodo env i s) = issued s @ [query env i]
      \<and> todos (deleteTodo env i s) = filter (\<lambda>todo. todo_id todo \<noteq> i) (todos s)"
    by (elim insertE emptyE)
       (simp_all add: auth_deleteTodo_cases(1,3) simple_deleteTodo_cases(1,2,5,6))
  with filter_out_known_id [OF assms(2,3)] show ?thesis by simp
qed

theorem delete_removes_exactly_one_witness:
  "distinct (map todo_id (todos example_state))
   \<and> 1 \<in> todo_id ` set (todos example_state)
   \<and> resp_error (remote env_ok (Delete [EqId 1, EqUserId (user env_ok)])) = None
   \<and> resp_error (remote env_ok (Delete [EqId 1])) = None
   \<and> issued (auth_deleteTodo env_ok 1 example_state) = [Delete [EqId 1, EqUserId ''u1'']]
   \<and> todos (auth_deleteTodo env_ok 1 example_state) = [task_b]
   \<and> issued (page_deleteTodo env_ok 1 example_state) = [Delete [EqId 1]]
   \<and> todos (page_deleteTodo env_ok 1 example_state) = [task_b]
   \<and> issued (part_deleteTodo env_ok 1 example_state) = [Delete [EqId 1]]
   \<and> todos (part_deleteTodo env_ok 1 example_state) = [task_b]"
proof -
  let ?auth = "\<lambda>env i. Delete [EqId i, EqUserId (user env)]"
  let ?simple = "\<lambda>(env :: env) i. Delete [EqId i]"
  let ?variants = "{(auth_deleteTodo, ?auth), (page_deleteTodo, ?simple),
                    (part_deleteTodo, ?simple)}"
  have ids: "distinct (map todo_id (todos example_state))"
    and known: "1 \<in> todo_id ` set (todos example_state)"
    by (simp_all add: example_state_def task_a_def task_b_def)
  have accepted: "resp_error (remote env_ok (?auth env_ok 1)) = None"
      "resp_error (remote env_ok (?simple env_ok 1)) = None"
    by (rule env_ok_no_error)+
  have variants: "(auth_deleteTodo, ?auth) \<in> ?variants" "(page_deleteTodo, ?simple) \<in> ?variants"
      "(part_deleteTodo, ?simple) \<in> ?variants"
    by simp_all
  have state: "issued example_state = []" "todos example_state = [task_a, task_b]"
      "user env_ok = ''u1''" "todo_id task_a = 1" "todo_id task_b = 2"
    by (simp_all add: example_state_def env_ok_def task_a_def task_b_def)
  have only: "before @ t # after = [task_a, task_b] \<Longrightarrow> todo_id t = 1 \<Longrightarrow> before @ after = [task_b]"
    for before t after
    by (cases before; cases after) (auto simp: state Cons_eq_append_conv append_eq_Cons_conv)
  from delete_removes_exactly_one [OF variants(1) ids known accepted(1)]
    delete_removes_exactly_one [OF variants(2) ids known accepted(2)]
    delete_removes_exactly_one [OF variants(3) ids known accepted(2)]
    ids known accepted
  show ?thesis unfolding state by (auto dest: only [OF sym])
qed

text \<open>
  C8. For every list of tasks, \<^verbatim>\<open>clearCompleted\<close> sends its delete of the
  completed rows, and when the remote collaborator answers that delete without error, the
  local list is exactly the tasks with \<^verbatim>\<open>completed = false\<close>, each unchanged and
  in their former order; every completed task is gone. Each component is paired with the
  query its handler builds.
\<close>

theorem clearCompleted_keeps_open_tasks:
  assumes "(clearCompleted, query) \<in>
             {(auth_clearCompleted, \<lambda>env. Delete [EqCompleted True, EqUserId (user env)]),
              (page_clearCompleted, \<lambda>env. Delete [EqCompleted True]),
              (part_clearCompleted, \<lambda>env. Delete [EqCompleted True])}"
      and "resp_error (remote env (query env)) = None"
  shows "issued (clearCompleted env s) = issued s @ [query env]
       \<and> todos (clearCompleted env s) = [t \<leftarrow> todos s. \<not> completed t]
       \<and> subseq (todos (clearCompleted env s)) (todos s)
       \<and> set (todos (clearCompleted env s)) = {t \<in> set (todos s). \<not> completed t}"
proof -
  from assms have "issued (clearCompleted env s) = issued s @ [query env]
      \<and> todos (clearCompleted env s) = filter (\<lambda>todo. \<not> completed todo) (todos s)"
    by (elim insertE emptyE)
       (simp_all add: auth_clearCompleted_cases(1,3) simple_clearCompleted_cases(1,2,5,6))
  then show ?thesis by simp
qed

theorem clearCompleted_keeps_open_tasks_witness:
  "resp_error (remote env_ok (Delete [EqCompleted True, EqUserId (user env_ok)])) = None
   \<and> resp_error (remote env_ok (Delete [EqCompleted True])) = None
   \<and> issued (auth_clearCompleted env_ok example_state) =
       [Delete [EqCompleted True, EqUserId ''u1'']]
   \<and> todos (auth_clearCompleted env_ok example_state) = [task_a]
   \<and> issued (page_clearCompleted env_ok example_state) = [Delete [EqCompleted True]]
   \<and> todos (page_clearCompleted env_ok example_state) = [task_a]
   \<and> issued (part_clearCompleted env_ok example_state) = [Delete [EqCompleted True]]
   \<and> todos (part_clearCompleted env_ok example_state) = [task_a]"
proof -
  let ?auth = "\<lambda>env. Delete [EqCompleted True, EqUserId (user env)]"
  let ?simple = "\<lambda>env :: env. Delete [EqCompleted True]"
  let ?variants = "{(auth_clearCompleted, ?auth), (page_clearCompleted, ?simple),
                    (part_clearCompleted, ?simple)}"
  have accepted: "resp_error (remote env_ok (?auth env_ok)) = None"
      "resp_error (remote env_ok (?simple env_ok)) = None"
    by (rule env_ok_no_error)+
  have variants: "(auth_clearCompleted, ?auth) \<in> ?variants"
      "(page_clearCompleted, ?simple) \<in> ?variants" "(part_clearCompleted, ?simple) \<in> ?variants"
    by simp_all
  have state: "issued example_state = []" "todos example_state = [task_a, task_b]"
      "user env_ok = ''u1''" "\<not> completed task_a" "completed task_b"
    by (simp_all add: example_state_def env_ok_def task_a_def task_b_def)
  from clearCompleted_keeps_open_tasks [OF variants(1) accepted(1), of example_state]
    clearCompleted_keeps_open_tasks [OF variants(2) accepted(2), of example_state]
    clearCompleted_keeps_open_tasks [OF variants(3) accepted(2), of example_state]
    accepted
  show ?thesis by (simp add: state)
qed

section \<open>The filter\<close>

text \<open>
  C9. Choosing a filter changes neither the list of tasks nor the trace of queries. The
  list on display is, for \<^verbatim>\<open>active\<close>, the tasks with \<^verbatim>\<open>completed = false\<close>;
  for \<^verbatim>\<open>completed\<close>, those with \<^verbatim>\<open>completed = true\<close>; for \<^verbatim>\<open>all\<close>,
  the whole list; and for any mode it is a subsequence of the whole list.
\<close>

theorem filter_is_local_view:
  "filteredTodos (setFilter ''active'' s) = [t \<leftarrow> todos s. \<not> completed t]
   \<and> filteredTodos (setFilter ''completed'' s) = [t \<leftarrow> todos s. completed t]
   \<and> filteredTodos (setFilter ''all'' s) = todos s
   \<and> subseq (filteredTodos (setFilter filterType s)) (todos s)
   \<and> todos (setFilter filterType s) = todos s
   \<and> issued (setFilter filterType s) = issued s"
  by (simp add: filteredTodos_def setFilter_def)

end
